theory Spec2Isabelle
  imports Complex_Main
begin

section \<open>Data model\<close>

text \<open>
  The marketplace back end keeps its documents in MongoDB collections and computes with
  JavaScript numbers. Here every number is an exact rational (\<open>rat\<close>): sums,
  differences and the 10 percent commission are computed without rounding. A Mongo
  ObjectId that the client sends (product, seller, listing) is a \<open>string\<close>; an
  ObjectId that the server creates (order, withdrawal request) is a \<open>nat\<close> handed
  in by the caller as the next unused id. The clock (\<open>Date.now()\<close>) is an
  \<open>int\<close> of milliseconds handed in by the caller.

  Field names follow the schemas; a prefix (\<open>tx_\<close>, \<open>wr_\<close>, \<open>o_\<close>, ...)
  separates fields that several schemas share.

  A handler runs from its first read to its last write with no other request in
  between. The Order and Product schemas are not among the sources: saving an order or
  a product is taken to succeed, and only the validators of the Wallet and
  WithdrawalRequest schemas can reject a save.
\<close>

subsection \<open>Wallet and its embedded transaction log (models/Wallet)\<close>

datatype txType = Credit | Debit

datatype txStatus = Completed | Pending | Failed

record transaction =
  tx_type :: txType
  tx_amount :: rat
  tx_description :: string
  tx_orderId :: "nat option"
  tx_withdrawalId :: "nat option"
  tx_balance :: rat
  tx_status :: txStatus

record wallet =
  balance :: rat
  totalEarnings :: rat
  totalWithdrawn :: rat
  pendingWithdrawals :: rat
  transactions :: "transaction list"
  isActive :: bool

text \<open>
  The schema's validators, which \<open>save()\<close> runs over the whole document: \<open>min: 0\<close>
  on the four aggregates and on every entry's amount, and a required (non-empty)
  description on every entry.
\<close>

definition transaction_valid :: "transaction \<Rightarrow> bool" where
  "transaction_valid t = (0 \<le> tx_amount t \<and> tx_description t \<noteq> [])"

definition wallet_valid :: "wallet \<Rightarrow> bool" where
  "wallet_valid w =
     (0 \<le> balance w \<and> 0 \<le> totalEarnings w \<and> 0 \<le> totalWithdrawn w \<and>
      0 \<le> pendingWithdrawals w \<and> list_all transaction_valid (transactions w))"

text \<open>
  \<open>walletSchema.methods.addTransaction\<close>, up to its final \<open>this.save()\<close>: the entry
  is built from \<open>this.balance\<close> as it is on entry, pushed, and only then are the
  aggregates updated.
\<close>

definition addTransaction ::
  "txType \<Rightarrow> rat \<Rightarrow> string \<Rightarrow> nat option \<Rightarrow> nat option \<Rightarrow> wallet \<Rightarrow> wallet" where
  "addTransaction ty amt desc oid wid w =
     (let tx = \<lparr>tx_type = ty, tx_amount = amt, tx_description = desc, tx_orderId = oid,
                tx_withdrawalId = wid, tx_balance = balance w, tx_status = Completed\<rparr>;
          w1 = w\<lparr>transactions := transactions w @ [tx]\<rparr>
      in case ty of
           Credit \<Rightarrow> w1\<lparr>balance := balance w1 + amt, totalEarnings := totalEarnings w1 + amt\<rparr>
         | Debit \<Rightarrow> w1\<lparr>balance := balance w1 - amt, totalWithdrawn := totalWithdrawn w1 + amt\<rparr>)"

text \<open>
  The ledger invariant in the words of the data model: in log order every entry's
  recorded balance is the previous entry's recorded balance plus (credit) or minus
  (debit) its amount, the first entry counting from 0, and the account's balance is the
  last entry's recorded balance (0 for an empty log).
\<close>

definition signedAmount :: "transaction \<Rightarrow> rat" where
  "signedAmount t = (case tx_type t of Credit \<Rightarrow> tx_amount t | Debit \<Rightarrow> - tx_amount t)"

fun balanceChain :: "rat \<Rightarrow> transaction list \<Rightarrow> bool" where
  "balanceChain b [] = True"
| "balanceChain b (t # ts) = (tx_balance t = b + signedAmount t \<and> balanceChain (tx_balance t) ts)"

fun lastBalance :: "rat \<Rightarrow> transaction list \<Rightarrow> rat" where
  "lastBalance b [] = b"
| "lastBalance b (t # ts) = lastBalance (tx_balance t) ts"

definition ledgerInvariant :: "wallet \<Rightarrow> bool" where
  "ledgerInvariant w =
     (balanceChain 0 (transactions w) \<and> balance w = lastBalance 0 (transactions w))"

definition emptyWallet :: wallet where
  "emptyWallet =
     \<lparr>balance = 0, totalEarnings = 0, totalWithdrawn = 0,
      pendingWithdrawals = 0, transactions = [], isActive = True\<rparr>"

subsection \<open>Withdrawal requests (models/WithdrawalRequest)\<close>

datatype wrStatus = WPending | Approved | Rejected | Processed

datatype payoutMethod = Bank_transfer | Upi | Paytm | Phonepe

text \<open>Destination details; an absent field is the empty string, which JavaScript's
  \<open>!x\<close> treats like \<open>undefined\<close>.\<close>

record bankDetails =
  accountNumber :: string
  ifscCode :: string
  upiId :: string
  walletNumber :: string

record withdrawalRequest =
  wr_id :: nat
  wr_seller :: string
  wr_amount :: rat
  wr_bankDetails :: bankDetails
  wr_status :: wrStatus
  wr_paymentMethod :: payoutMethod
  adminNotes :: "string option"
  processedBy :: "string option"
  processedAt :: "int option"
  rejectionReason :: "string option"
  transactionId :: "string option"
  wr_createdAt :: int

subsection \<open>Orders, products and seller listings\<close>

text \<open>
  The Order and Product schemas are not among the sources; the records hold the fields
  the controllers read and write. Statuses and the payment method are the strings the
  controllers assign. \<open>commission\<close> and \<open>sellerEarnings\<close> are absent until an
  order is credited. The order number is assigned by the Order model; the controllers
  only read it.
\<close>

record orderItem =
  oi_product :: string
  oi_name :: string
  oi_image :: string
  oi_price :: rat
  oi_quantity :: rat
  oi_sku :: string

record address =
  a_type :: string
  firstName :: string
  lastName :: string
  street :: string
  city :: string
  state :: string
  zipCode :: string
  country :: string
  phone :: string

record paymentResult =
  pr_id :: string
  pr_status :: string
  update_time :: int
  email_address :: string
  pr_razorpay_order_id :: string
  pr_razorpay_signature :: string

record order =
  o_id :: nat
  user :: string
  o_seller :: string
  orderItems :: "orderItem list"
  shippingAddress :: address
  paymentMethod :: string
  itemsPrice :: rat
  taxPrice :: rat
  shippingPrice :: rat
  totalPrice :: rat
  orderStatus :: string
  paymentStatus :: string
  shippingStatus :: string
  coupon :: "string option"
  discount :: rat
  orderIdempotencyKey :: "string option"
  razorpayOrderId :: "string option"
  orderNumber :: string
  commission :: "rat option"
  sellerEarnings :: "rat option"
  isEarningsCredited :: bool
  paymentResult :: "paymentResult option"
  createdAt :: int

record product =
  p_name :: string
  images :: "string list"
  sku :: string
  totalSold :: rat

record sellerProduct =
  sp_seller :: string
  sellerPrice :: rat

subsection \<open>The database\<close>

text \<open>
  One record of collections. Wallets are keyed by their seller (the schema's required
  \<open>seller\<close> field with its unique index), products and listings by their id. Orders and withdrawal requests are lists
  in insertion order, each document carrying its id.
\<close>

record db =
  orders :: "order list"
  products :: "string \<rightharpoonup> product"
  sellerProducts :: "string \<rightharpoonup> sellerProduct"
  wallets :: "string \<rightharpoonup> wallet"
  withdrawals :: "withdrawalRequest list"


definition saveOrder :: "order \<Rightarrow> db \<Rightarrow> db" where
  "saveOrder x d = d\<lparr>orders := map (\<lambda>y. if o_id y = o_id x then x else y) (orders d)\<rparr>"


section \<open>Wallet controller (controllers/walletController.js)\<close>

text \<open>
  A handler returns its response and the database it leaves behind. An error response
  is \<open>Inl\<close>; the database is returned in both cases, because a handler that fails
  after a write leaves that write in place.
\<close>

datatype walletError =
    MinimumWithdrawal
  | InsufficientBalance
  | PendingRequestExists
  | WithdrawalNotFound
  | NotPending
  | NotApproved
  | ValidationFailed string

text \<open>\<open>wallet.save()\<close>: the validators run first; a failure rejects the save.\<close>

definition saveWallet :: "string \<Rightarrow> wallet \<Rightarrow> db \<Rightarrow> walletError + db" where
  "saveWallet sellerId w d =
     (if wallet_valid w then Inr (d\<lparr>wallets := (wallets d)(sellerId \<mapsto> w)\<rparr>)
      else Inl (ValidationFailed ''Wallet validation failed''))"

text \<open>
  The withdrawal schema's \<open>pre('validate')\<close> hook (destination details by payout
  method), then the \<open>min: 100\<close> validator and the \<open>pre('save')\<close> hook, which both
  refuse an amount below 100.
\<close>

definition destinationError :: "withdrawalRequest \<Rightarrow> string option" where
  "destinationError r =
     (let details = wr_bankDetails r in
      case wr_paymentMethod r of
        Bank_transfer \<Rightarrow>
          if accountNumber details = [] \<or> ifscCode details = []
          then Some ''Account number and IFSC code are required for bank transfer'' else None
      | Upi \<Rightarrow>
          if upiId details = [] then Some ''UPI ID is required for UPI withdrawals'' else None
      | Paytm \<Rightarrow>
          if walletNumber details = []
          then Some ''Wallet/mobile number is required for this payment method'' else None
      | Phonepe \<Rightarrow>
          if walletNumber details = []
          then Some ''Wallet/mobile number is required for this payment method'' else None)"

definition withdrawalError :: "withdrawalRequest \<Rightarrow> string option" where
  "withdrawalError r =
     (case destinationError r of
        Some m \<Rightarrow> Some m
      | None \<Rightarrow> if wr_amount r < 100 then Some ''Minimum withdrawal amount is 100'' else None)"


text \<open>The schema methods \<open>approve\<close>, \<open>reject\<close> and \<open>markAsProcessed\<close>, before
  their \<open>this.save()\<close>.\<close>

definition approve :: "string \<Rightarrow> string \<Rightarrow> int \<Rightarrow> withdrawalRequest \<Rightarrow> withdrawalRequest" where
  "approve adminId notes now r =
     r\<lparr>wr_status := Approved, adminNotes := Some notes, processedBy := Some adminId,
       processedAt := Some now\<rparr>"

definition reject :: "string \<Rightarrow> string \<Rightarrow> int \<Rightarrow> withdrawalRequest \<Rightarrow> withdrawalRequest" where
  "reject adminId reason now r =
     r\<lparr>wr_status := Rejected, rejectionReason := Some reason, processedBy := Some adminId,
       processedAt := Some now\<rparr>"

definition markAsProcessed :: "string \<Rightarrow> string \<Rightarrow> int \<Rightarrow> withdrawalRequest \<Rightarrow> withdrawalRequest" where
  "markAsProcessed adminId txnId now r =
     r\<lparr>wr_status := Processed, transactionId := Some txnId, processedBy := Some adminId,
       processedAt := Some now\<rparr>"

subsection \<open>createWithdrawalRequest\<close>

definition pendingDebit :: "nat \<Rightarrow> rat \<Rightarrow> rat \<Rightarrow> transaction" where
  "pendingDebit wid amount bal =
     \<lparr>tx_type = Debit, tx_amount = amount, tx_description = ''Withdrawal request created'',
      tx_orderId = None, tx_withdrawalId = Some wid, tx_balance = bal, tx_status = Pending\<rparr>"

definition newWithdrawal ::
  "nat \<Rightarrow> string \<Rightarrow> rat \<Rightarrow> bankDetails \<Rightarrow> payoutMethod option \<Rightarrow> int \<Rightarrow> withdrawalRequest" where
  "newWithdrawal newId sellerId amount details method now =
     \<lparr>wr_id = newId, wr_seller = sellerId, wr_amount = amount, wr_bankDetails = details,
      wr_status = WPending,
      wr_paymentMethod = (case method of None \<Rightarrow> Bank_transfer | Some m \<Rightarrow> m),
      adminNotes = None, processedBy = None, processedAt = None, rejectionReason = None,
      transactionId = None, wr_createdAt = now\<rparr>"

definition createWithdrawalRequest ::
  "string \<Rightarrow> rat \<Rightarrow> bankDetails \<Rightarrow> payoutMethod option \<Rightarrow> nat \<Rightarrow> int \<Rightarrow> db \<Rightarrow>
   (walletError + withdrawalRequest) \<times> db" where
  "createWithdrawalRequest sellerId amount details method newId now d =
     (if amount < 100 then (Inl MinimumWithdrawal, d)
      else
        (case wallets d sellerId of
           None \<Rightarrow> (Inl InsufficientBalance, d)
         | Some w \<Rightarrow>
             if balance w < amount then (Inl InsufficientBalance, d)
             else if 0 < length (filter (\<lambda>r. wr_seller r = sellerId \<and> wr_status r = WPending)
                                   (withdrawals d))
             then (Inl PendingRequestExists, d)
             else
               (let wr = newWithdrawal newId sellerId amount details method now in
                (case withdrawalError wr of
                   Some m \<Rightarrow> (Inl (ValidationFailed m), d)
                 | None \<Rightarrow>
                     (let d1 = d\<lparr>withdrawals := withdrawals d @ [wr]\<rparr>;
                          w1 = w\<lparr>pendingWithdrawals := pendingWithdrawals w + amount\<rparr>;
                          w2 = w1\<lparr>balance := balance w1 - amount\<rparr>;
                          w3 = w2\<lparr>transactions :=
                                   transactions w2 @ [pendingDebit newId amount (balance w2)]\<rparr>
                      in (case saveWallet sellerId w3 d1 of
                            Inl e \<Rightarrow> (Inl e, d1)
                          | Inr d2 \<Rightarrow> (Inr wr, d2)))))))"

subsection \<open>approveWithdrawal, rejectWithdrawal, processWithdrawal\<close>


definition refundCredit :: "nat \<Rightarrow> rat \<Rightarrow> rat \<Rightarrow> transaction" where
  "refundCredit wid amount bal =
     \<lparr>tx_type = Credit, tx_amount = amount,
      tx_description = ''Withdrawal request rejected - amount refunded'',
      tx_orderId = None, tx_withdrawalId = Some wid, tx_balance = bal, tx_status = Completed\<rparr>"




definition processedDebit :: "nat \<Rightarrow> rat \<Rightarrow> rat \<Rightarrow> transaction" where
  "processedDebit wid amount bal =
     \<lparr>tx_type = Debit, tx_amount = amount, tx_description = ''Withdrawal processed'',
      tx_orderId = None, tx_withdrawalId = Some wid, tx_balance = bal, tx_status = Completed\<rparr>"



subsection \<open>recomputeWalletForSeller\<close>

text \<open>The locals of the recomputation: the log built so far and the four running sums.\<close>

record ledger =
  l_transactions :: "transaction list"
  runningBalance :: rat
  l_totalEarnings :: rat
  l_totalWithdrawn :: rat
  l_pendingWithdrawals :: rat

definition orderCommission :: "order \<Rightarrow> rat" where
  "orderCommission x =
     (case commission x of
        Some c \<Rightarrow> if 0 < c then c else totalPrice x * (1 / 10)
      | None \<Rightarrow> totalPrice x * (1 / 10))"

definition orderSellerEarnings :: "order \<Rightarrow> rat" where
  "orderSellerEarnings x =
     (case sellerEarnings x of
        Some e \<Rightarrow> if 0 < e then e else totalPrice x - orderCommission x
      | None \<Rightarrow> totalPrice x - orderCommission x)"

definition earningsCredit :: "order \<Rightarrow> rat \<Rightarrow> rat \<Rightarrow> transaction" where
  "earningsCredit x amount bal =
     \<lparr>tx_type = Credit, tx_amount = amount,
      tx_description = ''Earnings from order '' @ orderNumber x,
      tx_orderId = Some (o_id x), tx_withdrawalId = None, tx_balance = bal,
      tx_status = Completed\<rparr>"

definition creditOrder :: "order \<Rightarrow> ledger \<Rightarrow> ledger" where
  "creditOrder x l =
     (let earned = orderSellerEarnings x;
          rb = runningBalance l + earned
      in l\<lparr>runningBalance := rb, l_totalEarnings := l_totalEarnings l + earned,
           l_transactions := l_transactions l @ [earningsCredit x earned rb]\<rparr>)"

definition applyWithdrawal :: "withdrawalRequest \<Rightarrow> ledger \<Rightarrow> ledger" where
  "applyWithdrawal wr l =
     (case wr_status wr of
        WPending \<Rightarrow>
          (let rb = runningBalance l - wr_amount wr
           in l\<lparr>runningBalance := rb,
                l_pendingWithdrawals := l_pendingWithdrawals l + wr_amount wr,
                l_transactions := l_transactions l @ [pendingDebit (wr_id wr) (wr_amount wr) rb]\<rparr>)
      | Approved \<Rightarrow>
          (let rb = runningBalance l - wr_amount wr
           in l\<lparr>runningBalance := rb,
                l_pendingWithdrawals := l_pendingWithdrawals l + wr_amount wr,
                l_transactions := l_transactions l @ [pendingDebit (wr_id wr) (wr_amount wr) rb]\<rparr>)
      | Rejected \<Rightarrow>
          (let rb1 = runningBalance l - wr_amount wr;
               rb2 = rb1 + wr_amount wr
           in l\<lparr>runningBalance := rb2,
                l_transactions := l_transactions l @
                  [pendingDebit (wr_id wr) (wr_amount wr) rb1,
                   refundCredit (wr_id wr) (wr_amount wr) rb2]\<rparr>)
      | Processed \<Rightarrow>
          (let rb = runningBalance l - wr_amount wr
           in l\<lparr>runningBalance := rb,
                l_totalWithdrawn := l_totalWithdrawn l + wr_amount wr,
                l_transactions := l_transactions l @
                  [processedDebit (wr_id wr) (wr_amount wr) rb]\<rparr>))"

definition emptyLedger :: ledger where
  "emptyLedger =
     \<lparr>l_transactions = [], runningBalance = 0, l_totalEarnings = 0, l_totalWithdrawn = 0,
      l_pendingWithdrawals = 0\<rparr>"

text \<open>The two queries, each sorted by creation time, and the replay over them.\<close>

definition deliveredOrdersOf :: "string \<Rightarrow> db \<Rightarrow> order list" where
  "deliveredOrdersOf sellerId d =
     sort_key createdAt
       (filter (\<lambda>x. o_seller x = sellerId \<and> orderStatus x = ''delivered'') (orders d))"

definition withdrawalsOf :: "string \<Rightarrow> db \<Rightarrow> withdrawalRequest list" where
  "withdrawalsOf sellerId d =
     sort_key wr_createdAt (filter (\<lambda>r. wr_seller r = sellerId) (withdrawals d))"

definition replay :: "order list \<Rightarrow> withdrawalRequest list \<Rightarrow> ledger" where
  "replay deliveredOrders wds = fold applyWithdrawal wds (fold creditOrder deliveredOrders emptyLedger)"

text \<open>
  The upsert sets the log and the four aggregates on the seller's wallet and leaves
  its other fields as they are; a wallet that does not exist is inserted with the
  schema's defaults first. The function returns the wallet it reads back.
\<close>

definition recomputeWalletForSeller :: "string \<Rightarrow> db \<Rightarrow> wallet \<times> db" where
  "recomputeWalletForSeller sellerId d =
     (let l = replay (deliveredOrdersOf sellerId d) (withdrawalsOf sellerId d);
          existing = (case wallets d sellerId of None \<Rightarrow> emptyWallet | Some w \<Rightarrow> w);
          w' = existing\<lparr>transactions := l_transactions l, balance := runningBalance l,
                         totalEarnings := l_totalEarnings l,
                         totalWithdrawn := l_totalWithdrawn l,
                         pendingWithdrawals := l_pendingWithdrawals l\<rparr>
      in (w', d\<lparr>wallets := (wallets d)(sellerId \<mapsto> w')\<rparr>))"


section \<open>Order controller (controllers/orderController.js)\<close>

subsection \<open>updateOrderStatus\<close>


subsection \<open>createOrder and createOrderForRazorpay\<close>

record item =
  i_product :: string
  i_seller :: string
  i_sellerProduct :: string
  i_price :: rat
  i_quantity :: rat

text \<open>
  The request: \<open>req.user._id\<close> and the body. An absent string is empty, an absent
  discount is 0 (the handlers read it as \<open>discount || 0\<close>).
\<close>

record orderRequest =
  rq_user :: "string option"
  rq_shippingAddress :: "address option"
  rq_items :: "item list option"
  rq_paymentMethod :: string
  rq_coupon :: "string option"
  rq_discount :: rat
  rq_orderIdempotencyKey :: string
  rq_razorpay_order_id :: string

datatype orderResponse =
    Unauthenticated
  | AlreadyExists "order list"
  | BadRequest string
  | ServerError string
  | OrdersCreated "order list"

datatype itemError =
    OrderProductNotFound string
  | OrderSellerProductNotFound string
  | OrderSellerMismatch string

definition errorMessage :: "itemError \<Rightarrow> string" where
  "errorMessage e =
     (case e of
        OrderProductNotFound p \<Rightarrow> ''Product not found: '' @ p
      | OrderSellerProductNotFound sp \<Rightarrow> ''Seller product not found: '' @ sp
      | OrderSellerMismatch p \<Rightarrow> ''Seller mismatch for product '' @ p)"

text \<open>The duplicate check: the first order of the buyer with the key, created within
  the last five minutes.\<close>

definition findDuplicate :: "string \<Rightarrow> string \<Rightarrow> int \<Rightarrow> db \<Rightarrow> order option" where
  "findDuplicate userId key now d =
     find (\<lambda>x. user x = userId \<and> orderIdempotencyKey x = Some key \<and>
                now - 5 * 60 * 1000 \<le> createdAt x) (orders d)"

text \<open>
  Grouping by seller. \<open>itemsBySeller\<close> is an object keyed by seller id, read back
  with \<open>Object.keys\<close>: sellers in order of first appearance, each with its items in
  cart order.
\<close>

fun addToGroup :: "item \<Rightarrow> (string \<times> item list) list \<Rightarrow> (string \<times> item list) list" where
  "addToGroup it [] = [(i_seller it, [it])]"
| "addToGroup it ((s, xs) # g) =
     (if s = i_seller it then (s, xs @ [it]) # g else (s, xs) # addToGroup it g)"

fun groupBySeller ::
  "item list \<Rightarrow> (string \<times> item list) list \<Rightarrow> string + (string \<times> item list) list" where
  "groupBySeller [] g = Inr g"
| "groupBySeller (it # its) g =
     (if i_product it = [] \<or> i_seller it = [] then Inl ''Product or seller missing in order item.''
      else if length (i_product it) \<noteq> 24 then Inl ''Invalid product ID format.''
      else if length (i_seller it) \<noteq> 24 then Inl ''Invalid seller ID format.''
      else groupBySeller its (addToGroup it g))"

definition totalOrderValue :: "item list \<Rightarrow> rat" where
  "totalOrderValue its = fold (\<lambda>it sum. sum + i_price it * i_quantity it) its 0"

text \<open>
  One cart item: the product and the listing are looked up, the listing's seller is
  compared, and the result is the product with its sold count raised and the order
  line priced from the listing.
\<close>

definition resolveItem :: "db \<Rightarrow> string \<Rightarrow> item \<Rightarrow> itemError + (product \<times> orderItem)" where
  "resolveItem d sellerId it =
     (case products d (i_product it) of
        None \<Rightarrow> Inl (OrderProductNotFound (i_product it))
      | Some p \<Rightarrow>
          (case sellerProducts d (i_sellerProduct it) of
             None \<Rightarrow> Inl (OrderSellerProductNotFound (i_sellerProduct it))
           | Some sp \<Rightarrow>
               if sp_seller sp \<noteq> sellerId then Inl (OrderSellerMismatch (i_product it))
               else Inr (p\<lparr>totalSold := totalSold p + i_quantity it\<rparr>,
                         \<lparr>oi_product = i_product it, oi_name = p_name p,
                          oi_image = (case images p of [] \<Rightarrow> [] | u # us \<Rightarrow> u),
                          oi_price = sellerPrice sp, oi_quantity = i_quantity it,
                          oi_sku = sku p\<rparr>)))"

text \<open>
  The items of one seller (\<open>Promise.all\<close> over the partition, taken in cart order).
  \<open>createOrder\<close> saves each product without the session: the write reaches the
  database at once. \<open>createOrderForRazorpay\<close> saves it with the session: the write
  is staged in the transaction, and the lookups, made without the session, keep
  reading the committed database.
\<close>

fun orderItemsDirect :: "string \<Rightarrow> item list \<Rightarrow> db \<Rightarrow> (itemError + orderItem list) \<times> db" where
  "orderItemsDirect sellerId [] d = (Inr [], d)"
| "orderItemsDirect sellerId (it # its) d =
     (case resolveItem d sellerId it of
        Inl e \<Rightarrow> (Inl e, d)
      | Inr (p, oi) \<Rightarrow>
          (case orderItemsDirect sellerId its (d\<lparr>products := (products d)(i_product it \<mapsto> p)\<rparr>) of
             (Inl e, d') \<Rightarrow> (Inl e, d')
           | (Inr ois, d') \<Rightarrow> (Inr (oi # ois), d')))"

fun orderItemsInSession ::
  "string \<Rightarrow> item list \<Rightarrow> db \<Rightarrow> itemError + (orderItem list \<times> (string \<times> product) list)" where
  "orderItemsInSession sellerId [] d = Inr ([], [])"
| "orderItemsInSession sellerId (it # its) d =
     (case resolveItem d sellerId it of
        Inl e \<Rightarrow> Inl e
      | Inr (p, oi) \<Rightarrow>
          (case orderItemsInSession sellerId its d of
             Inl e \<Rightarrow> Inl e
           | Inr (ois, staged) \<Rightarrow> Inr (oi # ois, (i_product it, p) # staged)))"

definition orderAddress :: "address \<Rightarrow> address" where
  "orderAddress a =
     a\<lparr>a_type := (if a_type a = [] then ''home'' else a_type a)\<rparr>"

definition sellerDiscount :: "rat \<Rightarrow> rat \<Rightarrow> rat \<Rightarrow> rat" where
  "sellerDiscount tov disc itemsPrice' =
     (if 0 < tov then disc * (itemsPrice' / tov) else 0)"

definition orderItemsPrice :: "orderItem list \<Rightarrow> rat" where
  "orderItemsPrice ois = fold (\<lambda>i sum. sum + oi_price i * oi_quantity i) ois 0"

text \<open>
  \<open>new Order({...})\<close> for one seller. \<open>method\<close> is the payment method stored and
  \<open>rzp\<close> the gateway order id (absent in \<open>createOrder\<close>).
\<close>

definition buildOrder ::
  "nat \<Rightarrow> int \<Rightarrow> string \<Rightarrow> string \<Rightarrow> address \<Rightarrow> string \<Rightarrow> string option \<Rightarrow>
   orderRequest \<Rightarrow> rat \<Rightarrow> orderItem list \<Rightarrow> order" where
  "buildOrder newId now userId sellerId addr method rzp rq tov ois =
     (let itemsPrice' = orderItemsPrice ois;
          shippingPrice' = 0;
          taxPrice' = 0;
          sellerDiscount' = sellerDiscount tov (rq_discount rq) itemsPrice';
          totalPrice' = itemsPrice' + shippingPrice' + taxPrice' - sellerDiscount'
      in \<lparr>o_id = newId, user = userId, o_seller = sellerId, orderItems = ois,
          shippingAddress = orderAddress addr, paymentMethod = method,
          itemsPrice = itemsPrice', taxPrice = taxPrice', shippingPrice = shippingPrice',
          totalPrice = totalPrice', orderStatus = ''pending'', paymentStatus = ''pending'',
          shippingStatus = ''pending'', coupon = rq_coupon rq, discount = rq_discount rq,
          orderIdempotencyKey =
            (if rq_orderIdempotencyKey rq = [] then None else Some (rq_orderIdempotencyKey rq)),
          razorpayOrderId = rzp, orderNumber = [], commission = None, sellerEarnings = None,
          isEarningsCredited = False, paymentResult = None, createdAt = now\<rparr>)"

text \<open>
  The loop over the sellers. Every order is saved with the session, so the orders
  built so far are the transaction's staged writes: they reach the database only at
  the commit.
\<close>

fun sellerOrdersDirect ::
  "(nat \<Rightarrow> string \<Rightarrow> orderItem list \<Rightarrow> order) \<Rightarrow> (string \<times> item list) list \<Rightarrow> nat \<Rightarrow> db \<Rightarrow>
   (itemError + order list) \<times> db" where
  "sellerOrdersDirect mk [] newId d = (Inr [], d)"
| "sellerOrdersDirect mk ((sellerId, its) # g) newId d =
     (case orderItemsDirect sellerId its d of
        (Inl e, d') \<Rightarrow> (Inl e, d')
      | (Inr ois, d') \<Rightarrow>
          (case sellerOrdersDirect mk g (Suc newId) d' of
             (Inl e, d'') \<Rightarrow> (Inl e, d'')
           | (Inr created, d'') \<Rightarrow> (Inr (mk newId sellerId ois # created), d'')))"

fun sellerOrdersInSession ::
  "(nat \<Rightarrow> string \<Rightarrow> orderItem list \<Rightarrow> order) \<Rightarrow> (string \<times> item list) list \<Rightarrow> nat \<Rightarrow> db \<Rightarrow>
   itemError + (order list \<times> (string \<times> product) list)" where
  "sellerOrdersInSession mk [] newId d = Inr ([], [])"
| "sellerOrdersInSession mk ((sellerId, its) # g) newId d =
     (case orderItemsInSession sellerId its d of
        Inl e \<Rightarrow> Inl e
      | Inr (ois, staged) \<Rightarrow>
          (case sellerOrdersInSession mk g (Suc newId) d of
             Inl e \<Rightarrow> Inl e
           | Inr (created, staged') \<Rightarrow> Inr (mk newId sellerId ois # created, staged @ staged')))"

definition commitProducts :: "(string \<times> product) list \<Rightarrow> (string \<rightharpoonup> product) \<Rightarrow> (string \<rightharpoonup> product)" where
  "commitProducts staged m = fold (\<lambda>kp m'. m'(fst kp \<mapsto> snd kp)) staged m"

definition duplicateOf :: "orderRequest \<Rightarrow> string \<Rightarrow> int \<Rightarrow> db \<Rightarrow> order option" where
  "duplicateOf rq userId now d =
     (if rq_orderIdempotencyKey rq = [] then None
      else findDuplicate userId (rq_orderIdempotencyKey rq) now d)"

text \<open>
  \<open>createOrder\<close>. On a failed partition the transaction is aborted: the staged orders
  are dropped and the database is what the unsessioned writes made of it.
\<close>

definition createOrder :: "orderRequest \<Rightarrow> nat \<Rightarrow> int \<Rightarrow> db \<Rightarrow> orderResponse \<times> db" where
  "createOrder rq newId now d =
     (case rq_user rq of
        None \<Rightarrow> (Unauthenticated, d)
      | Some userId \<Rightarrow>
     (case duplicateOf rq userId now d of
        Some existingOrder \<Rightarrow> (AlreadyExists [existingOrder], d)
      | None \<Rightarrow>
     (case rq_shippingAddress rq of
        None \<Rightarrow> (BadRequest ''Missing required fields: shippingAddress, items, or paymentMethod'', d)
      | Some addr \<Rightarrow>
     (case rq_items rq of
        None \<Rightarrow> (BadRequest ''Missing required fields: shippingAddress, items, or paymentMethod'', d)
      | Some its \<Rightarrow>
          if rq_paymentMethod rq = []
          then (BadRequest ''Missing required fields: shippingAddress, items, or paymentMethod'', d)
          else if its = [] then (BadRequest ''Items must be a non-empty array'', d)
          else
            (case groupBySeller its [] of
               Inl m \<Rightarrow> (BadRequest m, d)
             | Inr g \<Rightarrow>
                 (case sellerOrdersDirect
                         (\<lambda>i s ois. buildOrder i now userId s addr (rq_paymentMethod rq) None rq
                                       (totalOrderValue its) ois) g newId d of
                    (Inl e, d') \<Rightarrow> (ServerError (''Failed to create order: '' @ errorMessage e), d')
                  | (Inr created, d') \<Rightarrow>
                      (OrdersCreated created, d'\<lparr>orders := orders d' @ created\<rparr>)))))))"

text \<open>
  \<open>createOrderForRazorpay\<close>. Product writes and orders are both staged; the abort
  drops them all, the commit applies them all.
\<close>

definition createOrderForRazorpay :: "orderRequest \<Rightarrow> nat \<Rightarrow> int \<Rightarrow> db \<Rightarrow> orderResponse \<times> db" where
  "createOrderForRazorpay rq newId now d =
     (case rq_user rq of
        None \<Rightarrow> (Unauthenticated, d)
      | Some userId \<Rightarrow>
     (case duplicateOf rq userId now d of
        Some existingOrder \<Rightarrow> (AlreadyExists [existingOrder], d)
      | None \<Rightarrow>
     (case rq_shippingAddress rq of
        None \<Rightarrow> (BadRequest ''Missing required fields: shippingAddress, items, paymentMethod, or razorpay_order_id'', d)
      | Some addr \<Rightarrow>
     (case rq_items rq of
        None \<Rightarrow> (BadRequest ''Missing required fields: shippingAddress, items, paymentMethod, or razorpay_order_id'', d)
      | Some its \<Rightarrow>
          if rq_paymentMethod rq = [] \<or> rq_razorpay_order_id rq = []
          then (BadRequest ''Missing required fields: shippingAddress, items, paymentMethod, or razorpay_order_id'', d)
          else if its = [] then (BadRequest ''Items must be a non-empty array'', d)
          else
            (case groupBySeller its [] of
               Inl m \<Rightarrow> (BadRequest m, d)
             | Inr g \<Rightarrow>
                 (case sellerOrdersInSession
                         (\<lambda>i s ois. buildOrder i now userId s addr ''razorpay''
                                       (Some (rq_razorpay_order_id rq)) rq (totalOrderValue its) ois)
                         g newId d of
                    Inl e \<Rightarrow> (ServerError (''Failed to create order: '' @ errorMessage e), d)
                  | Inr (created, staged) \<Rightarrow>
                      (OrdersCreated created,
                       d\<lparr>orders := orders d @ created,
                         products := commitProducts staged (products d)\<rparr>)))))))"

section \<open>Payment capture (capturePaymentForOrders)\<close>

text \<open>
  The payment gateway and the process environment are parameters: the two keys, the
  keyed digest, and the gateway's \<open>orders.fetch\<close> and \<open>payments.capture\<close>. A
  gateway call either throws or returns; \<open>orders.fetch\<close> may return null. An absent
  amount of the gateway order is 0 (\<open>rpOrder.amount || 0\<close>).
\<close>

datatype 'a gatewayResult = Throws | Returns 'a

record gateway =
  keyId :: "string option"
  keySecret :: "string option"
  hmacSha256 :: "string \<Rightarrow> string \<Rightarrow> string"
  fetchOrder :: "string \<Rightarrow> rat option gatewayResult"
  capturePayment :: "string \<Rightarrow> rat \<Rightarrow> unit gatewayResult"

record captureRequest =
  c_user :: "string option"
  c_email :: string
  orderIds :: "nat list"
  razorpay_order_id :: string
  razorpay_payment_id :: string
  razorpay_signature :: string

datatype captureResponse = CaptureRejected nat string | CaptureDone "order list"

text \<open>\<open>Math.round\<close>: the nearest integer, a tie going up.\<close>

definition mathRound :: "rat \<Rightarrow> rat" where
  "mathRound x = of_int \<lfloor>x + 1 / 2\<rfloor>"

definition totalAmountPaise :: "order list \<Rightarrow> rat" where
  "totalAmountPaise os = mathRound (fold (\<lambda>x sum. sum + totalPrice x) os 0 * 100)"

definition markPaid :: "captureRequest \<Rightarrow> int \<Rightarrow> order \<Rightarrow> order" where
  "markPaid rq now x =
     x\<lparr>paymentStatus := ''paid'', orderStatus := ''confirmed'', paymentMethod := ''razorpay'',
       paymentResult := Some \<lparr>pr_id = razorpay_payment_id rq, pr_status = ''captured'',
                              update_time = now, email_address = c_email rq,
                              pr_razorpay_order_id = razorpay_order_id rq,
                              pr_razorpay_signature = razorpay_signature rq\<rparr>\<rparr>"

definition keysConfigured :: "gateway \<Rightarrow> bool" where
  "keysConfigured gw =
     (case keyId gw of
        None \<Rightarrow> False
      | Some k \<Rightarrow> (case keySecret gw of None \<Rightarrow> False | Some s \<Rightarrow> k \<noteq> [] \<and> s \<noteq> []))"

definition capturePaymentForOrders ::
  "gateway \<Rightarrow> captureRequest \<Rightarrow> int \<Rightarrow> db \<Rightarrow> captureResponse \<times> db" where
  "capturePaymentForOrders gw rq now d =
     (if orderIds rq = [] then (CaptureRejected 400 ''orderIds is required'', d)
      else if razorpay_order_id rq = [] \<or> razorpay_payment_id rq = [] \<or> razorpay_signature rq = []
      then (CaptureRejected 400 ''Missing payment fields'', d)
      else
        (case keySecret gw of
           None \<Rightarrow> (CaptureRejected 500 ''The key argument must be a string'', d)
         | Some secret \<Rightarrow>
             if hmacSha256 gw secret (razorpay_order_id rq @ ''|'' @ razorpay_payment_id rq)
                  \<noteq> razorpay_signature rq
             then (CaptureRejected 400 ''Invalid payment signature'', d)
             else
               let os = filter (\<lambda>x. o_id x \<in> set (orderIds rq)) (orders d) in
               if length os \<noteq> length (orderIds rq)
               then (CaptureRejected 404 ''Some orders not found'', d)
               else if \<not> list_all (\<lambda>x. Some (user x) = c_user rq) os
               then (CaptureRejected 403 ''You are not authorized to pay for these orders'', d)
               else
                 let paise = totalAmountPaise os in
                 if \<not> keysConfigured gw
                 then (CaptureRejected 502 ''Failed to capture payment'', d)
                 else
                   (case fetchOrder gw (razorpay_order_id rq) of
                      Throws \<Rightarrow> (CaptureRejected 502 ''Failed to capture payment'', d)
                    | Returns None \<Rightarrow> (CaptureRejected 400 ''Razorpay order not found'', d)
                    | Returns (Some rpAmount) \<Rightarrow>
                        if 2 < \<bar>rpAmount - paise\<bar>
                        then (CaptureRejected 400 ''Payment amount mismatch'', d)
                        else
                          (case capturePayment gw (razorpay_payment_id rq) paise of
                             Throws \<Rightarrow> (CaptureRejected 502 ''Failed to capture payment'', d)
                           | Returns u \<Rightarrow>
                               (CaptureDone (map (markPaid rq now) os),
                                fold (\<lambda>x d'. saveOrder (markPaid rq now x) d') os d)))))"

section \<open>Vocabulary of the statements\<close>

text \<open>The \<open>orders\<close> field of an order response (absent: the empty list).\<close>

definition ordersOf :: "orderResponse \<Rightarrow> order list" where
  "ordersOf r = (case r of OrdersCreated os \<Rightarrow> os | AlreadyExists os \<Rightarrow> os | _ \<Rightarrow> [])"

text \<open>
  An order line is a cart item priced from its listing: the listing exists, belongs to
  the seller, and gives the line's price; product and quantity are the item's.
\<close>

definition pricedFromListing :: "db \<Rightarrow> string \<Rightarrow> item \<Rightarrow> orderItem \<Rightarrow> bool" where
  "pricedFromListing d sellerId it oi =
     (case sellerProducts d (i_sellerProduct it) of
        None \<Rightarrow> False
      | Some sp \<Rightarrow> sp_seller sp = sellerId \<and> oi_price oi = sellerPrice sp \<and>
                   oi_quantity oi = i_quantity it \<and> oi_product oi = i_product it)"


text \<open>The ledger invariant on the locals of the recomputation.\<close>

definition ledgerRuns :: "ledger \<Rightarrow> bool" where
  "ledgerRuns l =
     (balanceChain 0 (l_transactions l) \<and> runningBalance l = lastBalance 0 (l_transactions l))"

section \<open>Example data\<close>

text \<open>Two sellers, two listed products, and a product id that no product has.\<close>

definition productA :: string where "productA = ''aaaaaaaaaaaaaaaaaaaaaaaa''"

definition productB :: string where "productB = ''bbbbbbbbbbbbbbbbbbbbbbbb''"

definition productC :: string where "productC = ''cccccccccccccccccccccccc''"

definition seller1 :: string where "seller1 = ''111111111111111111111111''"

definition seller2 :: string where "seller2 = ''222222222222222222222222''"

definition listingA :: string where "listingA = ''aaaaaaaaaaaaaaaaaaaaaaa1''"

definition listingB :: string where "listingB = ''bbbbbbbbbbbbbbbbbbbbbbb2''"

definition shopDb :: db where
  "shopDb =
     \<lparr>orders = [],
      products = [productA \<mapsto> \<lparr>p_name = ''Rice'', images = [], sku = ''R1'', totalSold = 0\<rparr>,
                  productB \<mapsto> \<lparr>p_name = ''Oil'', images = [], sku = ''O1'', totalSold = 0\<rparr>],
      sellerProducts = [listingA \<mapsto> \<lparr>sp_seller = seller1, sellerPrice = 500\<rparr>,
                        listingB \<mapsto> \<lparr>sp_seller = seller2, sellerPrice = 250\<rparr>],
      wallets = Map.empty, withdrawals = []\<rparr>"

definition homeAddress :: address where
  "homeAddress =
     \<lparr>a_type = [], firstName = ''Asha'', lastName = ''Rao'', street = ''1 Main Road'',
      city = ''Pune'', state = ''MH'', zipCode = ''411001'', country = ''India'', phone = []\<rparr>"

definition itemA :: "rat \<Rightarrow> item" where
  "itemA pr =
     \<lparr>i_product = productA, i_seller = seller1, i_sellerProduct = listingA, i_price = pr,
      i_quantity = 2\<rparr>"

definition itemB :: "rat \<Rightarrow> item" where
  "itemB pr =
     \<lparr>i_product = productB, i_seller = seller2, i_sellerProduct = listingB, i_price = pr,
      i_quantity = 2\<rparr>"

definition itemMissing :: item where
  "itemMissing =
     \<lparr>i_product = productC, i_seller = seller2, i_sellerProduct = listingB, i_price = 250,
      i_quantity = 1\<rparr>"

definition cart :: "item list \<Rightarrow> rat \<Rightarrow> orderRequest" where
  "cart its disc =
     \<lparr>rq_user = Some ''buyer1'', rq_shippingAddress = Some homeAddress, rq_items = Some its,
      rq_paymentMethod = ''cod'', rq_coupon = None, rq_discount = disc,
      rq_orderIdempotencyKey = ''key-1'', rq_razorpay_order_id = ''order_1''\<rparr>"

text \<open>
  Three carts: one over both sellers at the listed prices (values 1000 and 500) with a
  discount of 150; the same cart sent with prices twice the listed ones; and a cart
  whose second item names the missing product.
\<close>

definition splitCart :: orderRequest where
  "splitCart = cart [itemA 500, itemB 250] 150"


definition brokenCart :: orderRequest where
  "brokenCart = cart [itemA 500, itemMissing] 0"

text \<open>What \<open>createOrder\<close> makes of the first two carts on the example database, with 1
  as the next order id and at time 0.\<close>

definition splitOrders :: "order list" where
  "splitOrders = ordersOf (fst (createOrder splitCart 1 0 shopDb))"

definition splitDb :: db where
  "splitDb = snd (createOrder splitCart 1 0 shopDb)"


text \<open>An order of buyer1 from seller1 with the given id, status and total.\<close>

definition exampleOrder :: "nat \<Rightarrow> string \<Rightarrow> rat \<Rightarrow> order" where
  "exampleOrder i st amt =
     \<lparr>o_id = i, user = ''buyer1'', o_seller = seller1,
      orderItems = [\<lparr>oi_product = productA, oi_name = ''Rice'', oi_image = [], oi_price = amt,
                     oi_quantity = 1, oi_sku = ''R1''\<rparr>],
      shippingAddress = homeAddress, paymentMethod = ''cod'', itemsPrice = amt, taxPrice = 0,
      shippingPrice = 0, totalPrice = amt, orderStatus = st, paymentStatus = ''pending'',
      shippingStatus = ''pending'', coupon = None, discount = 0, orderIdempotencyKey = None,
      razorpayOrderId = None, orderNumber = ''ORD-1'', commission = None, sellerEarnings = None,
      isEarningsCredited = False, paymentResult = None, createdAt = 0\<rparr>"

definition ordersDb :: "order list \<Rightarrow> db" where
  "ordersDb os = shopDb\<lparr>orders := os\<rparr>"

text \<open>A wallet holding 500 of earnings, and databases around it.\<close>

definition sellerWallet :: wallet where
  "sellerWallet = emptyWallet\<lparr>balance := 500, totalEarnings := 500\<rparr>"

definition bankAccount :: bankDetails where
  "bankAccount = \<lparr>accountNumber = ''00112233'', ifscCode = ''HDFC0001'', upiId = [], walletNumber = []\<rparr>"

definition walletDb :: db where
  "walletDb = shopDb\<lparr>wallets := [seller1 \<mapsto> sellerWallet]\<rparr>"

text \<open>The same database after the seller has asked to withdraw 200.\<close>

definition heldDb :: db where
  "heldDb = snd (createWithdrawalRequest seller1 200 bankAccount None 7 0 walletDb)"



text \<open>A gateway with both keys set, a toy digest, and a chosen answer to \<open>orders.fetch\<close>.\<close>

definition gatewayOf :: "rat option gatewayResult \<Rightarrow> gateway" where
  "gatewayOf fetched =
     \<lparr>keyId = Some ''rzp_key'', keySecret = Some ''secret'', hmacSha256 = (\<lambda>k m. k @ m),
      fetchOrder = (\<lambda>i. fetched), capturePayment = (\<lambda>p a. Returns ())\<rparr>"

definition captureRq :: "string \<Rightarrow> captureRequest" where
  "captureRq sig =
     \<lparr>c_user = Some ''buyer1'', c_email = ''buyer1@example.in'', orderIds = [1, 2],
      razorpay_order_id = ''order_1'', razorpay_payment_id = ''pay_1'', razorpay_signature = sig\<rparr>"

text \<open>The toy digest of \<open>order_1|pay_1\<close> under the key \<open>secret\<close>.\<close>

definition validSignature :: string where
  "validSignature = ''secretorder_1|pay_1''"

text \<open>Two orders of buyer1 with totals 900 and 450: 135000 paise.\<close>

definition captureDb :: db where
  "captureDb = ordersDb [exampleOrder 1 ''pending'' 900, exampleOrder 2 ''pending'' 450]"

section \<open>Lemmas on lists\<close>



lemma find_append_cases:
  "find P (xs @ ys) = (case find P xs of None \<Rightarrow> find P ys | Some x \<Rightarrow> Some x)"
  by (induction xs) auto






section \<open>The ledger entry written by addTransaction\<close>

text \<open>
  Claim C1 asks that every entry appended by \<open>addTransaction\<close> records the balance
  after the operation, so that the log stays a running balance and the account's
  balance is the last entry's. On a fresh wallet a credit of 900 appends an entry
  whose recorded balance is 0, the balance before the credit, while the account's
  balance becomes 900: the invariant holds before the call and is broken after it.
\<close>

theorem addTransaction_records_balance_before:
  "ledgerInvariant emptyWallet \<and>
   map tx_balance (transactions (addTransaction Credit 900 ''Earnings from order 1'' (Some 1) None
      emptyWallet)) = [0] \<and>
   balance (addTransaction Credit 900 ''Earnings from order 1'' (Some 1) None emptyWallet) = 900 \<and>
   \<not> ledgerInvariant (addTransaction Credit 900 ''Earnings from order 1'' (Some 1) None emptyWallet)"
  by (simp add: ledgerInvariant_def addTransaction_def emptyWallet_def signedAmount_def)

text \<open>
  The other writers of ledger entries record the balance after the operation. The
  recomputation is one of them: the wallet it writes satisfies the invariant, for
  every history of orders and withdrawals.
\<close>

lemma balanceChain_snoc:
  "balanceChain b (ts @ [t]) \<longleftrightarrow> balanceChain b ts \<and> tx_balance t = lastBalance b ts + signedAmount t"
  by (induction ts arbitrary: b) auto

lemma lastBalance_snoc: "lastBalance b (ts @ [t]) = tx_balance t"
  by (induction ts arbitrary: b) auto

lemma creditOrder_runs: "ledgerRuns l \<Longrightarrow> ledgerRuns (creditOrder x l)"
  by (simp add: ledgerRuns_def creditOrder_def Let_def balanceChain_snoc lastBalance_snoc
      earningsCredit_def signedAmount_def)

lemma applyWithdrawal_runs: "ledgerRuns l \<Longrightarrow> ledgerRuns (applyWithdrawal r l)"
  by (cases "wr_status r")
     (simp_all add: ledgerRuns_def applyWithdrawal_def Let_def balanceChain_snoc lastBalance_snoc
        pendingDebit_def refundCredit_def processedDebit_def signedAmount_def
        balanceChain_snoc[of _ "_ @ [_]", simplified] lastBalance_snoc[of _ "_ @ [_]", simplified])

lemma fold_creditOrder_runs: "ledgerRuns l \<Longrightarrow> ledgerRuns (fold creditOrder xs l)"
  by (induction xs arbitrary: l) (simp_all add: creditOrder_runs)

lemma fold_applyWithdrawal_runs: "ledgerRuns l \<Longrightarrow> ledgerRuns (fold applyWithdrawal rs l)"
  by (induction rs arbitrary: l) (simp_all add: applyWithdrawal_runs)

lemma recompute_ledgerInvariant:
  "ledgerInvariant (fst (recomputeWalletForSeller sellerId d))"
proof -
  have "ledgerRuns emptyLedger"
    by (simp add: ledgerRuns_def emptyLedger_def)
  then have "ledgerRuns (replay (deliveredOrdersOf sellerId d) (withdrawalsOf sellerId d))"
    unfolding replay_def by (intro fold_applyWithdrawal_runs fold_creditOrder_runs)
  then show ?thesis
    by (simp add: recomputeWalletForSeller_def Let_def ledgerInvariant_def ledgerRuns_def)
qed

section \<open>Withdrawals\<close>

subsection \<open>The effect of each step\<close>

lemma withdrawalError_status [simp]:
  "withdrawalError (reject a b c r) = withdrawalError r"
  "withdrawalError (approve a b c r) = withdrawalError r"
  "withdrawalError (markAsProcessed a b c r) = withdrawalError r"
  by (simp_all add: withdrawalError_def destinationError_def reject_def approve_def
      markAsProcessed_def)


lemma create_effect:
  assumes "100 \<le> A" "wallets d s = Some w" "wallet_valid w" "A \<le> balance w"
    and "filter (\<lambda>r. wr_seller r = s \<and> wr_status r = WPending) (withdrawals d) = []"
    and "destinationError (newWithdrawal n s A bd m t0) = None"
  shows "createWithdrawalRequest s A bd m n t0 d =
     (Inr (newWithdrawal n s A bd m t0),
      d\<lparr>withdrawals := withdrawals d @ [newWithdrawal n s A bd m t0],
        wallets := (wallets d)(s \<mapsto> w\<lparr>pendingWithdrawals := pendingWithdrawals w + A,
                      balance := balance w - A,
                      transactions := transactions w @ [pendingDebit n A (balance w - A)]\<rparr>)\<rparr>)"
  using assms
  by (simp add: createWithdrawalRequest_def withdrawalError_def saveWallet_def wallet_valid_def
      transaction_valid_def pendingDebit_def newWithdrawal_def Let_def)









subsection \<open>Create, then reject or approve and process\<close>



subsection \<open>Refused withdrawal requests\<close>

text \<open>
  Claim C8. A withdrawal request that violates a precondition is refused with the
  error of the first check it fails, and the database is returned as it was: no
  request is stored, no ledger entry is appended, no aggregate changes. An amount
  below 100 gives \<open>MinimumWithdrawal\<close>; an amount of at least 100 that the wallet's
  balance does not cover (or a seller without a wallet) gives \<open>InsufficientBalance\<close>,
  the insufficient-funds error; a covered amount of at least 100 while the seller has
  a pending request gives \<open>PendingRequestExists\<close>.
\<close>

theorem createWithdrawalRequest_refuses:
  "(amount < 100 \<longrightarrow>
      createWithdrawalRequest sellerId amount details method newId now d =
        (Inl MinimumWithdrawal, d)) \<and>
   (100 \<le> amount \<and> (case wallets d sellerId of None \<Rightarrow> True | Some w \<Rightarrow> balance w < amount) \<longrightarrow>
      createWithdrawalRequest sellerId amount details method newId now d =
        (Inl InsufficientBalance, d)) \<and>
   (100 \<le> amount \<and> (case wallets d sellerId of None \<Rightarrow> False | Some w \<Rightarrow> amount \<le> balance w) \<and>
    (\<exists>r \<in> set (withdrawals d). wr_seller r = sellerId \<and> wr_status r = WPending) \<longrightarrow>
      createWithdrawalRequest sellerId amount details method newId now d =
        (Inl PendingRequestExists, d))"
  by (auto simp: createWithdrawalRequest_def filter_empty_conv split: option.splits)

text \<open>
  The example wallet holds 500: a request for 50 is below the minimum, a request for
  1000 exceeds the balance, and once 200 are on hold a further request for 100 meets a
  pending one.
\<close>

theorem createWithdrawalRequest_refuses_witness:
  "createWithdrawalRequest seller1 50 bankAccount None 7 0 walletDb =
     (Inl MinimumWithdrawal, walletDb) \<and>
   map_option balance (wallets walletDb seller1) = Some 500 \<and>
   createWithdrawalRequest seller1 1000 bankAccount None 7 0 walletDb =
     (Inl InsufficientBalance, walletDb) \<and>
   map_option balance (wallets heldDb seller1) = Some 300 \<and>
   map wr_status (filter (\<lambda>r. wr_seller r = seller1) (withdrawals heldDb)) = [WPending] \<and>
   createWithdrawalRequest seller1 100 bankAccount None 8 1 heldDb =
     (Inl PendingRequestExists, heldDb)"
proof -
  have w: "wallets walletDb seller1 = Some sellerWallet" "balance sellerWallet = 500"
    by (simp_all add: walletDb_def shopDb_def sellerWallet_def emptyWallet_def)
  have held: "heldDb = walletDb\<lparr>withdrawals := [newWithdrawal 7 seller1 200 bankAccount None 0],
      wallets := (wallets walletDb)(seller1 \<mapsto> sellerWallet\<lparr>pendingWithdrawals := 200,
         balance := 300, transactions := [pendingDebit 7 200 300]\<rparr>)\<rparr>"
    unfolding heldDb_def
    by (subst create_effect[where w = sellerWallet])
       (simp_all add: w walletDb_def shopDb_def sellerWallet_def emptyWallet_def wallet_valid_def
          destinationError_def newWithdrawal_def bankAccount_def)
  have h: "wallets heldDb seller1 =
      Some (sellerWallet\<lparr>pendingWithdrawals := 200, balance := 300,
              transactions := [pendingDebit 7 200 300]\<rparr>)"
    "withdrawals heldDb = [newWithdrawal 7 seller1 200 bankAccount None 0]"
    by (simp_all add: held)
  have a: "createWithdrawalRequest seller1 50 bankAccount None 7 0 walletDb =
     (Inl MinimumWithdrawal, walletDb)"
    using createWithdrawalRequest_refuses[of 50 seller1 bankAccount None 7 0 walletDb] by simp
  have b: "createWithdrawalRequest seller1 1000 bankAccount None 7 0 walletDb =
     (Inl InsufficientBalance, walletDb)"
    using createWithdrawalRequest_refuses[of 1000 seller1 bankAccount None 7 0 walletDb]
    by (simp add: w)
  have c: "createWithdrawalRequest seller1 100 bankAccount None 8 1 heldDb =
     (Inl PendingRequestExists, heldDb)"
    using createWithdrawalRequest_refuses[of 100 seller1 bankAccount None 8 1 heldDb]
    by (simp add: h newWithdrawal_def)
  show ?thesis
    using a b c by (simp add: w h newWithdrawal_def)
qed

section \<open>Reconciliation\<close>



section \<open>Crediting a delivered order\<close>



section \<open>Order creation\<close>

subsection \<open>The loops\<close>

lemma pricedFromListing_cong:
  "sellerProducts d1 = sellerProducts d \<Longrightarrow> pricedFromListing d1 = pricedFromListing d"
  by (simp add: pricedFromListing_def fun_eq_iff)

lemma resolveItem_priced: "resolveItem d s it = Inr (p, oi) \<Longrightarrow> pricedFromListing d s it oi"
  by (auto simp: resolveItem_def pricedFromListing_def split: option.splits if_splits)

lemma orderItemsDirect_lines:
  "orderItemsDirect s its d = (Inr ois, d') \<Longrightarrow>
   list_all2 (pricedFromListing d s) its ois \<and> sellerProducts d' = sellerProducts d \<and>
   orders d' = orders d \<and> wallets d' = wallets d \<and> withdrawals d' = withdrawals d"
proof (induction its arbitrary: d ois d')
  case Nil
  then show ?case by simp
next
  case (Cons it its)
  from Cons.prems obtain p oi ois' where
    r: "resolveItem d s it = Inr (p, oi)" and
    rest: "orderItemsDirect s its (d\<lparr>products := (products d)(i_product it \<mapsto> p)\<rparr>) = (Inr ois', d')" and
    ois: "ois = oi # ois'"
    by (auto split: sum.splits prod.splits)
  have same: "pricedFromListing (d\<lparr>products := (products d)(i_product it \<mapsto> p)\<rparr>) = pricedFromListing d"
    by (rule pricedFromListing_cong) simp
  from Cons.IH[OF rest] have
    "list_all2 (pricedFromListing d s) its ois'" and
    "sellerProducts d' = sellerProducts d" "orders d' = orders d"
    "wallets d' = wallets d" "withdrawals d' = withdrawals d"
    by (simp_all add: same)
  with resolveItem_priced[OF r] ois show ?case by simp
qed

lemma sellerOrdersDirect_created:
  "sellerOrdersDirect mk g n d = (Inr created, d') \<Longrightarrow>
   list_all2 (\<lambda>sx x. \<exists>i ois. x = mk i (fst sx) ois \<and> list_all2 (pricedFromListing d (fst sx)) (snd sx) ois)
     g created \<and>
   sellerProducts d' = sellerProducts d \<and> orders d' = orders d \<and>
   wallets d' = wallets d \<and> withdrawals d' = withdrawals d"
proof (induction g arbitrary: n d created d')
  case Nil
  then show ?case by simp
next
  case (Cons sx g)
  obtain s its where sx: "sx = (s, its)" by (cases sx)
  from Cons.prems obtain ois d1 created' where
    a: "orderItemsDirect s its d = (Inr ois, d1)" and
    b: "sellerOrdersDirect mk g (Suc n) d1 = (Inr created', d')" and
    c: "created = mk n s ois # created'"
    by (auto simp: sx split: sum.splits prod.splits)
  note l = orderItemsDirect_lines[OF a]
  note r = Cons.IH[OF b]
  have same: "pricedFromListing d1 = pricedFromListing d"
    using l by (intro pricedFromListing_cong) simp
  show ?case
    using l r by (auto simp: c sx same)
qed

lemma orderItemsInSession_lines:
  "orderItemsInSession s its d = Inr (ois, staged) \<Longrightarrow> list_all2 (pricedFromListing d s) its ois"
proof (induction its arbitrary: ois staged)
  case Nil
  then show ?case by simp
next
  case (Cons it its)
  from Cons.prems obtain p oi ois' staged' where
    r: "resolveItem d s it = Inr (p, oi)" and
    rest: "orderItemsInSession s its d = Inr (ois', staged')" and
    ois: "ois = oi # ois'"
    by (auto split: sum.splits prod.splits)
  from Cons.IH[OF rest] resolveItem_priced[OF r] ois show ?case by simp
qed

lemma sellerOrdersInSession_created:
  "sellerOrdersInSession mk g n d = Inr (created, staged) \<Longrightarrow>
   list_all2 (\<lambda>sx y. \<exists>i ois. y = mk i (fst sx) ois \<and> list_all2 (pricedFromListing d (fst sx)) (snd sx) ois)
     g created"
proof (induction g arbitrary: n created staged)
  case Nil
  then show ?case by simp
next
  case (Cons sx g)
  obtain s its where sx: "sx = (s, its)" by (cases sx)
  from Cons.prems obtain ois st created' staged' where
    a: "orderItemsInSession s its d = Inr (ois, st)" and
    b: "sellerOrdersInSession mk g (Suc n) d = Inr (created', staged')" and
    c: "created = mk n s ois # created'"
    by (auto simp: sx split: sum.splits prod.splits)
  from Cons.IH[OF b] orderItemsInSession_lines[OF a] show ?case by (auto simp: c sx)
qed

subsection \<open>Grouping by seller\<close>





lemma addToGroup_nonempty: "addToGroup it g \<noteq> []"
  by (induction it g rule: addToGroup.induct) auto

lemma groupBySeller_nonempty:
  "groupBySeller its g0 = Inr g \<Longrightarrow> its \<noteq> [] \<or> g0 \<noteq> [] \<Longrightarrow> g \<noteq> []"
proof (induction its arbitrary: g0)
  case Nil
  then show ?case by simp
next
  case (Cons it its)
  from Cons.prems(1) have g: "groupBySeller its (addToGroup it g0) = Inr g"
    by (auto split: if_splits)
  show ?case
    by (rule Cons.IH[OF g]) (simp add: addToGroup_nonempty)
qed

subsection \<open>What a successful request has done\<close>

lemma createOrder_created:
  assumes "createOrder rq n now d = (OrdersCreated os, d1)"
  obtains userId addr its g d' where
    "rq_user rq = Some userId" "duplicateOf rq userId now d = None"
    "rq_items rq = Some its" "its \<noteq> []" "groupBySeller its [] = Inr g"
    "sellerOrdersDirect (\<lambda>i s ois. buildOrder i now userId s addr (rq_paymentMethod rq) None rq
         (totalOrderValue its) ois) g n d = (Inr os, d')"
    "d1 = d'\<lparr>orders := orders d' @ os\<rparr>"
  using assms
  by (auto simp: createOrder_def split: option.splits if_splits sum.splits prod.splits)

lemma createOrderForRazorpay_created:
  assumes "createOrderForRazorpay rq n now d = (OrdersCreated os, d1)"
  obtains userId addr its g staged where
    "rq_user rq = Some userId" "duplicateOf rq userId now d = None"
    "rq_items rq = Some its" "its \<noteq> []" "groupBySeller its [] = Inr g"
    "sellerOrdersInSession (\<lambda>i s ois. buildOrder i now userId s addr ''razorpay''
         (Some (rq_razorpay_order_id rq)) rq (totalOrderValue its) ois) g n d = Inr (os, staged)"
    "d1 = d\<lparr>orders := orders d @ os, products := commitProducts staged (products d)\<rparr>"
  using assms
  by (auto simp: createOrderForRazorpay_def split: option.splits if_splits sum.splits prod.splits)

lemma created_orders:
  assumes "h = createOrder \<or> h = createOrderForRazorpay"
    and "h rq n now d = (OrdersCreated os, d1)"
  obtains userId addr its g pm rzp where
    "rq_user rq = Some userId" "duplicateOf rq userId now d = None"
    "rq_items rq = Some its" "its \<noteq> []" "groupBySeller its [] = Inr g"
    "list_all2 (\<lambda>sx y. \<exists>i ois. y = buildOrder i now userId (fst sx) addr pm rzp rq (totalOrderValue its) ois \<and>
                list_all2 (pricedFromListing d (fst sx)) (snd sx) ois) g os"
    "orders d1 = orders d @ os"
  using assms(1)
proof
  assume "h = createOrder"
  with assms(2) have c: "createOrder rq n now d = (OrdersCreated os, d1)" by simp
  from c obtain userId addr its g d' where
    f: "rq_user rq = Some userId" "duplicateOf rq userId now d = None"
      "rq_items rq = Some its" "its \<noteq> []" "groupBySeller its [] = Inr g" and
    so: "sellerOrdersDirect (\<lambda>i s ois. buildOrder i now userId s addr (rq_paymentMethod rq) None rq
         (totalOrderValue its) ois) g n d = (Inr os, d')" and
    d1: "d1 = d'\<lparr>orders := orders d' @ os\<rparr>"
    by (rule createOrder_created)
  note cr = sellerOrdersDirect_created[OF so]
  show ?thesis
    by (rule that[OF f, of addr "rq_paymentMethod rq" None]) (use cr in \<open>simp_all add: d1\<close>)
next
  assume "h = createOrderForRazorpay"
  with assms(2) have c: "createOrderForRazorpay rq n now d = (OrdersCreated os, d1)" by simp
  from c obtain userId addr its g staged where
    f: "rq_user rq = Some userId" "duplicateOf rq userId now d = None"
      "rq_items rq = Some its" "its \<noteq> []" "groupBySeller its [] = Inr g" and
    so: "sellerOrdersInSession (\<lambda>i s ois. buildOrder i now userId s addr ''razorpay''
         (Some (rq_razorpay_order_id rq)) rq (totalOrderValue its) ois) g n d = Inr (os, staged)" and
    d1: "d1 = d\<lparr>orders := orders d @ os, products := commitProducts staged (products d)\<rparr>"
    by (rule createOrderForRazorpay_created)
  note cr = sellerOrdersInSession_created[OF so]
  show ?thesis
    by (rule that[OF f, of addr "''razorpay''" "Some (rq_razorpay_order_id rq)"])
       (use cr in \<open>simp_all add: d1\<close>)
qed

lemma created_all:
  "list_all2 (\<lambda>sx y. \<exists>i ois. y = mk i (fst sx) ois \<and> Q sx ois) g os \<Longrightarrow>
   (\<And>i s ois. P (mk i s ois)) \<Longrightarrow> list_all P os"
  by (induction rule: list_all2_induct) auto

text \<open>The example requests evaluated: a cart of both sellers, and a cart whose second
  item names a product that does not exist.\<close>

lemmas example_defs =
  cart_def itemA_def itemB_def itemMissing_def shopDb_def homeAddress_def productA_def
  productB_def productC_def seller1_def seller2_def listingA_def listingB_def

lemmas handler_defs =
  createOrder_def createOrderForRazorpay_def duplicateOf_def findDuplicate_def resolveItem_def
  buildOrder_def totalOrderValue_def orderItemsPrice_def sellerDiscount_def orderAddress_def
  errorMessage_def commitProducts_def ordersOf_def

lemma splitCart_result:
  "createOrder splitCart 1 0 shopDb = (OrdersCreated splitOrders, splitDb)"
  "map o_id splitOrders = [1, 2]"
  "map o_seller splitOrders = [seller1, seller2]"
  "map itemsPrice splitOrders = [1000, 500]"
  "map totalPrice splitOrders = [900, 450]"
  by (simp_all add: splitOrders_def splitDb_def splitCart_def handler_defs example_defs Let_def
      prod_eq_iff)


subsection \<open>A failed partition\<close>

text \<open>
  Claim C2 asks that a request with a failing seller partition leaves no order and no
  sold-count change behind. \<open>createOrder\<close> saves each product without the session,
  so those writes are outside the transaction that the abort rolls back. For a cart
  whose first seller's item is fine and whose second seller's item names a missing
  product, the request fails and no order is stored, but the first product's sold
  count has gone from 0 to 2. \<open>createOrderForRazorpay\<close>, which passes the session
  to the product's save, leaves the database untouched on the same cart.
\<close>

theorem createOrder_sold_count_survives_abort:
  "fst (createOrder brokenCart 1 0 shopDb) =
     ServerError ''Failed to create order: Product not found: cccccccccccccccccccccccc'' \<and>
   orders (snd (createOrder brokenCart 1 0 shopDb)) = [] \<and>
   map_option totalSold (products shopDb productA) = Some 0 \<and>
   map_option totalSold (products (snd (createOrder brokenCart 1 0 shopDb)) productA) = Some 2 \<and>
   createOrderForRazorpay brokenCart 1 0 shopDb =
     (ServerError ''Failed to create order: Product not found: cccccccccccccccccccccccc'', shopDb)"
  by (simp add: brokenCart_def handler_defs example_defs)

text \<open>With the session on every write, a request either commits its orders together
  with its sold counts or leaves the database as it was.\<close>

lemma createOrderForRazorpay_atomic:
  "createOrderForRazorpay rq n now d = (r, d1) \<Longrightarrow>
   (\<exists>os staged. r = OrdersCreated os \<and>
        d1 = d\<lparr>orders := orders d @ os, products := commitProducts staged (products d)\<rparr>) \<or> d1 = d"
  by (auto simp: createOrderForRazorpay_def split: option.splits if_splits sum.splits prod.splits)

subsection \<open>A repeated submission\<close>

lemma duplicate_after_create:
  assumes none: "findDuplicate u k t1 d = None"
    and os: "os \<noteq> []"
    and mine: "list_all (\<lambda>y. user y = u \<and> orderIdempotencyKey y = Some k \<and> createdAt y = t1) os"
    and t: "t1 \<le> t2" "t2 \<le> t1 + 5 * 60 * 1000"
    and d1: "orders d1 = orders d @ os"
  shows "findDuplicate u k t2 d1 = Some (hd os)"
proof -
  have old: "find (\<lambda>x. user x = u \<and> orderIdempotencyKey x = Some k \<and> t2 - 5 * 60 * 1000 \<le> createdAt x)
               (orders d) = None"
    using none t(1) by (auto simp: findDuplicate_def find_None_iff)
  obtain y ys where ys: "os = y # ys" using os by (cases os) auto
  show ?thesis
    using old mine t(2) by (simp add: findDuplicate_def d1 find_append_cases ys)
qed

text \<open>
  Claim C3, as the handlers have it. A request with a non-empty idempotency key has
  created its orders at time \<open>t1\<close>, through either handler. A second request of the
  same buyer with the same key, at a time \<open>t2\<close> no more than five minutes later,
  through either handler, writes nothing: the database it returns is the one it was
  given, so the first call's orders stay the only ones. Its answer is the
  already-exists response carrying one order, the first order the first call created,
  and not the list of all of them.
\<close>

theorem duplicate_submission_returns_first_order:
  assumes h1: "h1 = createOrder \<or> h1 = createOrderForRazorpay"
    and h2: "h2 = createOrder \<or> h2 = createOrderForRazorpay"
    and first: "h1 rq1 n1 t1 d = (OrdersCreated os, d1)"
    and key: "rq_orderIdempotencyKey rq1 \<noteq> []"
    and same: "rq_user rq2 = rq_user rq1" "rq_orderIdempotencyKey rq2 = rq_orderIdempotencyKey rq1"
    and t: "t1 \<le> t2" "t2 \<le> t1 + 5 * 60 * 1000"
  shows "os \<noteq> [] \<and> h2 rq2 n2 t2 d1 = (AlreadyExists [hd os], d1)"
proof -
  define k where "k = rq_orderIdempotencyKey rq1"
  from h1 first obtain u addr its g pm rzp where
    u: "rq_user rq1 = Some u" and dup: "duplicateOf rq1 u t1 d = None" and
    its: "its \<noteq> []" and g: "groupBySeller its [] = Inr g" and
    all2: "list_all2 (\<lambda>sx y. \<exists>i ois. y = buildOrder i t1 u (fst sx) addr pm rzp rq1 (totalOrderValue its) ois \<and>
                list_all2 (pricedFromListing d (fst sx)) (snd sx) ois) g os" and
    d1: "orders d1 = orders d @ os"
    by (rule created_orders)
  have "g \<noteq> []"
    using groupBySeller_nonempty[OF g] its by simp
  with list_all2_lengthD[OF all2] have os: "os \<noteq> []"
    by auto
  have mine: "list_all (\<lambda>y. user y = u \<and> orderIdempotencyKey y = Some k \<and> createdAt y = t1) os"
    by (rule created_all[OF all2]) (use key in \<open>simp add: buildOrder_def Let_def k_def\<close>)
  have none: "findDuplicate u k t1 d = None"
    using dup key by (simp add: duplicateOf_def k_def)
  have hit: "duplicateOf rq2 u t2 d1 = Some (hd os)"
    using duplicate_after_create[OF none os mine t d1] key same(2)
    by (simp add: duplicateOf_def k_def)
  have "h2 rq2 n2 t2 d1 = (AlreadyExists [hd os], d1)"
    using h2 hit u same(1) by (auto simp: createOrder_def createOrderForRazorpay_def)
  with os show ?thesis by simp
qed

text \<open>The cart over both sellers, sent again one second later by the same buyer with
  the same key.\<close>

theorem duplicate_submission_returns_first_order_witness:
  "createOrder splitCart 1 0 shopDb = (OrdersCreated splitOrders, splitDb) \<and>
   rq_orderIdempotencyKey splitCart \<noteq> [] \<and> (0::int) \<le> 1000 \<and> (1000::int) \<le> 0 + 5 * 60 * 1000 \<and>
   splitOrders \<noteq> [] \<and>
   createOrder splitCart 3 1000 splitDb = (AlreadyExists [hd splitOrders], splitDb)"
proof -
  note first = splitCart_result(1)
  have key: "rq_orderIdempotencyKey splitCart \<noteq> []"
    by (simp add: splitCart_def cart_def)
  have t: "(0::int) \<le> 1000" "(1000::int) \<le> 0 + 5 * 60 * 1000"
    by simp_all
  have "splitOrders \<noteq> [] \<and>
     createOrder splitCart 3 1000 splitDb = (AlreadyExists [hd splitOrders], splitDb)"
    by (rule duplicate_submission_returns_first_order[where ?h1.0 = createOrder
          and ?h2.0 = createOrder and ?rq1.0 = splitCart and ?rq2.0 = splitCart and ?n1.0 = 1
          and ?t1.0 = 0 and d = shopDb,
          OF disjI1[OF refl] disjI1[OF refl] first key refl refl t])
  with first key t show ?thesis by (intro conjI) simp_all
qed

text \<open>
  The claim as stated has the second call return the first call's result, the full
  list of orders. For the cart over both sellers the first call returns two orders
  and the second call returns one.
\<close>

theorem duplicate_submission_counterexample:
  "fst (createOrder splitCart 1 0 shopDb) = OrdersCreated splitOrders \<and>
   map o_id splitOrders = [1, 2] \<and>
   map o_id (ordersOf (fst (createOrder splitCart 3 1000 splitDb))) = [1] \<and>
   ordersOf (fst (createOrder splitCart 3 1000 splitDb)) \<noteq> splitOrders"
proof -
  have second: "map o_id (ordersOf (fst (createOrder splitCart 3 1000 splitDb))) = [1]"
    by (simp add: splitDb_def splitCart_def handler_defs example_defs Let_def)
  have "map o_id (ordersOf (fst (createOrder splitCart 3 1000 splitDb))) \<noteq> map o_id splitOrders"
    unfolding second splitCart_result(2) by simp
  then have "ordersOf (fst (createOrder splitCart 3 1000 splitDb)) \<noteq> splitOrders"
    by auto
  with second splitCart_result(1,2) show ?thesis by simp
qed

subsection \<open>Prices and the discount share\<close>






section \<open>Payment capture\<close>

lemma floor_example: "\<lfloor>(270001::rat) / 2\<rfloor> = 135000"
  by (simp add: floor_eq_iff)

lemmas capture_defs =
  capturePaymentForOrders_def gatewayOf_def captureRq_def captureDb_def ordersDb_def shopDb_def
  exampleOrder_def keysConfigured_def totalAmountPaise_def mathRound_def validSignature_def
  floor_example

text \<open>
  Claim C9. Whenever the capture request fails one of its checks, the handler answers
  with an error and returns the database as it was, so no order's payment status,
  order status, payment method or payment result has changed. The failures are: the
  signature is not the digest of the two ids under the server's secret (or the secret
  is not set), some requested order is not found, a found order belongs to another
  buyer, the gateway's recorded amount is more than 2 away from the orders' total in
  paise, the keys are not configured, fetching the gateway order throws or finds
  nothing, or the capture itself throws.
\<close>

theorem capture_failure_no_mutation:
  assumes "(case keySecret gw of None \<Rightarrow> True
            | Some secret \<Rightarrow> hmacSha256 gw secret (razorpay_order_id rq @ ''|'' @ razorpay_payment_id rq)
                  \<noteq> razorpay_signature rq)
         \<or> length (filter (\<lambda>x. o_id x \<in> set (orderIds rq)) (orders d)) \<noteq> length (orderIds rq)
         \<or> list_ex (\<lambda>x. Some (user x) \<noteq> c_user rq) (filter (\<lambda>x. o_id x \<in> set (orderIds rq)) (orders d))
         \<or> (\<exists>a. fetchOrder gw (razorpay_order_id rq) = Returns (Some a) \<and>
                2 < \<bar>a - totalAmountPaise (filter (\<lambda>x. o_id x \<in> set (orderIds rq)) (orders d))\<bar>)
         \<or> \<not> keysConfigured gw
         \<or> fetchOrder gw (razorpay_order_id rq) = Throws
         \<or> fetchOrder gw (razorpay_order_id rq) = Returns None
         \<or> capturePayment gw (razorpay_payment_id rq)
               (totalAmountPaise (filter (\<lambda>x. o_id x \<in> set (orderIds rq)) (orders d))) = Throws"
  shows "\<exists>code msg. capturePaymentForOrders gw rq now d = (CaptureRejected code msg, d)"
  using assms
  by (auto simp: capturePaymentForOrders_def Let_def list_ex_iff list_all_iff
      split: if_splits option.splits gatewayResult.splits)

text \<open>
  On the two example orders: a forged signature, a gateway order of 100000 paise
  against orders worth 135000, and a gateway whose fetch throws. Each request is
  rejected and leaves the database as it was.
\<close>

theorem capture_failure_no_mutation_witness:
  "hmacSha256 (gatewayOf (Returns (Some 135000))) ''secret'' (''order_1'' @ ''|'' @ ''pay_1'') \<noteq> ''forged'' \<and>
   fst (capturePaymentForOrders (gatewayOf (Returns (Some 135000))) (captureRq ''forged'') 5 captureDb) =
     CaptureRejected 400 ''Invalid payment signature'' \<and>
   snd (capturePaymentForOrders (gatewayOf (Returns (Some 135000))) (captureRq ''forged'') 5 captureDb) =
     captureDb \<and>
   totalAmountPaise (filter (\<lambda>x. o_id x \<in> set [1, 2]) (orders captureDb)) = 135000 \<and>
   fst (capturePaymentForOrders (gatewayOf (Returns (Some 100000))) (captureRq validSignature) 5 captureDb) =
     CaptureRejected 400 ''Payment amount mismatch'' \<and>
   snd (capturePaymentForOrders (gatewayOf (Returns (Some 100000))) (captureRq validSignature) 5 captureDb) =
     captureDb \<and>
   fst (capturePaymentForOrders (gatewayOf Throws) (captureRq validSignature) 5 captureDb) =
     CaptureRejected 502 ''Failed to capture payment'' \<and>
   snd (capturePaymentForOrders (gatewayOf Throws) (captureRq validSignature) 5 captureDb) = captureDb"
proof -
  have forged: "hmacSha256 (gatewayOf (Returns (Some 135000))) ''secret'' (''order_1'' @ ''|'' @ ''pay_1'')
      \<noteq> ''forged''"
    by (simp add: gatewayOf_def)
  have paise: "totalAmountPaise (filter (\<lambda>x. o_id x \<in> set [1, 2]) (orders captureDb)) = 135000"
    by (simp add: capture_defs)
  have a: "snd (capturePaymentForOrders (gatewayOf (Returns (Some 135000))) (captureRq ''forged'') 5 captureDb) =
     captureDb"
    using capture_failure_no_mutation[of "gatewayOf (Returns (Some 135000))" "captureRq ''forged''"
        captureDb 5]
    by (auto simp: gatewayOf_def captureRq_def)
  have b: "snd (capturePaymentForOrders (gatewayOf (Returns (Some 100000))) (captureRq validSignature) 5 captureDb) =
     captureDb"
    using capture_failure_no_mutation[of "gatewayOf (Returns (Some 100000))" "captureRq validSignature"
        captureDb 5] paise
    by (auto simp: gatewayOf_def captureRq_def)
  have c: "snd (capturePaymentForOrders (gatewayOf Throws) (captureRq validSignature) 5 captureDb) = captureDb"
    using capture_failure_no_mutation[of "gatewayOf Throws" "captureRq validSignature" captureDb 5]
    by (auto simp: gatewayOf_def captureRq_def)
  have r: "fst (capturePaymentForOrders (gatewayOf (Returns (Some 135000))) (captureRq ''forged'') 5 captureDb) =
     CaptureRejected 400 ''Invalid payment signature''"
    "fst (capturePaymentForOrders (gatewayOf (Returns (Some 100000))) (captureRq validSignature) 5 captureDb) =
     CaptureRejected 400 ''Payment amount mismatch''"
    "fst (capturePaymentForOrders (gatewayOf Throws) (captureRq validSignature) 5 captureDb) =
     CaptureRejected 502 ''Failed to capture payment''"
    by (simp_all add: capture_defs)
  show ?thesis
    by (intro conjI forged r a paise b c)
qed



end
